theory Spec2Isabelle
  imports Main
begin

section \<open>JavaScript values and settled promises\<close>

text \<open>
  The values that flow through the four modules: what a JSON body parses to, the
  \<open>Error\<close> objects that are thrown, \<open>undefined\<close>, and the built-in members that
  every object literal inherits from \<open>Object.prototype\<close>. Numbers are restricted to
  integers (no \<open>NaN\<close>, no fractions); an object is its list of own properties.
  \<open>JError m\<close> is an \<open>Error\<close> object whose \<open>message\<close> is \<open>m\<close>.
\<close>

datatype js =
    JUndefined
  | JNull
  | JBool bool
  | JNum int
  | JStr string
  | JArr "js list"
  | JObj "(string \<times> js) list"
  | JError string
  | JBuiltin string

text \<open>\<open>ToBoolean\<close>, as applied by \<open>if (cache[key])\<close>.\<close>

fun truthy :: "js \<Rightarrow> bool" where
  "truthy JUndefined = False"
| "truthy JNull = False"
| "truthy (JBool b) = b"
| "truthy (JNum n) = (n \<noteq> 0)"
| "truthy (JStr s) = (s \<noteq> [])"
| "truthy (JArr xs) = True"
| "truthy (JObj ps) = True"
| "truthy (JError m) = True"
| "truthy (JBuiltin b) = True"

text \<open>
  An awaited promise either resolved with a value or rejected with a reason. The
  reason is any JavaScript value: \<open>retryFetch\<close> can reject with \<open>undefined\<close>.
\<close>

datatype 'a settled = Resolved 'a | Rejected js

section \<open>cache.js\<close>

text \<open>
  \<open>const cache = {}\<close> is an ordinary object literal. Its own properties are a map
  from property names to values; a read \<open>cache[key]\<close> of a name that is not an own
  property falls through to \<open>Object.prototype\<close>, which holds the members listed
  below, and yields \<open>undefined\<close> for every other name.
\<close>

type_synonym cache = "string \<rightharpoonup> js"

definition object_prototype_keys :: "string list" where
  "object_prototype_keys =
     [''constructor'', ''hasOwnProperty'', ''isPrototypeOf'', ''propertyIsEnumerable'',
      ''toLocaleString'', ''toString'', ''valueOf'', ''__proto__'',
      ''__defineGetter__'', ''__defineSetter__'', ''__lookupGetter__'', ''__lookupSetter__'']"

definition get_prop :: "cache \<Rightarrow> string \<Rightarrow> js" where
  "get_prop c key =
     (case c key of
        Some v \<Rightarrow> v
      | None \<Rightarrow> if key \<in> set object_prototype_keys then JBuiltin key else JUndefined)"

text \<open>
  One awaited call of \<open>useCache\<close>. The producer \<open>fetchFn\<close> takes no argument, so
  all the call can observe of it is how the promise it returns settles; that settlement
  is the parameter. \<open>calls\<close> counts the invocations of \<open>fetchFn\<close> made by the call,
  \<open>store\<close> is the cache object afterwards.

  The assignment \<open>cache[key] = data\<close> is reached only when \<open>cache[key]\<close> was falsy,
  hence never for an inherited name (lemma \<open>useCache_miss_not_inherited\<close>): it always
  creates or updates an own data property.
\<close>

record cached =
  store :: cache
  settlement :: "js settled"
  calls :: nat

definition useCache :: "cache \<Rightarrow> string \<Rightarrow> js settled \<Rightarrow> cached" where
  "useCache c key fetchFn =
     (if truthy (get_prop c key)
      then \<lparr>store = c, settlement = Resolved (get_prop c key), calls = 0\<rparr>
      else (case fetchFn of
              Resolved data \<Rightarrow> \<lparr>store = c(key \<mapsto> data), settlement = Resolved data, calls = 1\<rparr>
            | Rejected e \<Rightarrow> \<lparr>store = c, settlement = Rejected e, calls = 1\<rparr>))"

text \<open>A sequence of awaited calls, each given its key and its producer's settlement.\<close>

fun useCache_seq :: "cache \<Rightarrow> (string \<times> js settled) list \<Rightarrow> cache" where
  "useCache_seq c [] = c"
| "useCache_seq c ((key, fetchFn) # rest) = useCache_seq (store (useCache c key fetchFn)) rest"

section \<open>retryFetch\<close>

text \<open>
  The loop observes the producer only through the settlement of each invocation, so
  the producer is the function from the invocation's index (0-based) to that
  settlement. The trace records every invocation and every \<open>setTimeout\<close> wait with
  its duration argument.
\<close>

datatype retry_event = Invoke | Sleep int

function retry_loop ::
  "(nat \<Rightarrow> js settled) \<Rightarrow> int \<Rightarrow> int \<Rightarrow> nat \<Rightarrow> js \<Rightarrow> js settled \<times> retry_event list" where
  "retry_loop fetchFn retries delay i lastError =
     (if int i < retries
      then (case fetchFn i of
              Resolved v \<Rightarrow> (Resolved v, [Invoke])
            | Rejected error \<Rightarrow>
                (let wait = (if int i < retries - 1 then [Sleep delay] else []);
                     rest = retry_loop fetchFn retries delay (i + 1) error
                 in (fst rest, Invoke # wait @ snd rest)))
      else (Rejected lastError, []))"
  by pat_completeness auto
termination
  by (relation "measure (\<lambda>(fetchFn, retries, delay, i, lastError). nat (retries - int i))") auto

declare retry_loop.simps [simp del]

text \<open>What a trace shows: how often the producer ran, and the waits made.\<close>

fun invocations :: "retry_event list \<Rightarrow> nat" where
  "invocations [] = 0"
| "invocations (Invoke # es) = Suc (invocations es)"
| "invocations (Sleep d # es) = invocations es"

fun sleeps :: "retry_event list \<Rightarrow> int list" where
  "sleeps [] = []"
| "sleeps (Invoke # es) = sleeps es"
| "sleeps (Sleep d # es) = d # sleeps es"

definition retryFetch ::
  "(nat \<Rightarrow> js settled) \<Rightarrow> int option \<Rightarrow> int option \<Rightarrow> js settled \<times> retry_event list" where
  "retryFetch fetchFn retries delay =
     retry_loop fetchFn
       (case retries of None \<Rightarrow> 3 | Some n \<Rightarrow> n)
       (case delay of None \<Rightarrow> 1000 | Some d \<Rightarrow> d)
       0 JUndefined"

section \<open>fetcho\<close>

text \<open>
  An options bag is the map of its own properties. The transport \<open>fetch\<close> is a
  parameter: given the URL and the options it settles with a response descriptor or
  rejects. \<open>json\<close> is how the promise of \<open>response.json()\<close> settles. The trace
  records the request handed to the transport, the call of \<open>response.json()\<close> and the
  arguments of \<open>console.error\<close>.
\<close>

type_synonym options = "string \<rightharpoonup> js"

record response =
  ok :: bool
  status :: nat
  json :: "js settled"

datatype effect =
    FetchCall string options
  | JsonCall
  | ConsoleError "js list"

text \<open>The template literal's \<open>${response.status}\<close>: a non-negative integer in decimal.\<close>

definition digit_char :: "nat \<Rightarrow> char" where
  "digit_char d = ''0123456789'' ! d"

fun number_to_string :: "nat \<Rightarrow> string" where
  "number_to_string n =
     (if n < 10 then [digit_char n]
      else number_to_string (n div 10) @ [digit_char (n mod 10)])"

declare number_to_string.simps [simp del]

definition defaultOptions :: options where
  "defaultOptions =
     [''method'' \<mapsto> JStr ''GET'',
      ''headers'' \<mapsto> JObj [(''Content-Type'', JStr ''application/json'')]]"

text \<open>\<open>{ ...defaultOptions, ...options }\<close>: the properties of \<open>options\<close> win.\<close>

definition finalOptions :: "options \<Rightarrow> options" where
  "finalOptions opts = defaultOptions ++ opts"

text \<open>The body of the \<open>try\<close> block.\<close>

definition fetcho_try ::
  "(string \<Rightarrow> options \<Rightarrow> response settled) \<Rightarrow> string \<Rightarrow> options \<Rightarrow> js settled \<times> effect list" where
  "fetcho_try fetch url final =
     (case fetch url final of
        Rejected error \<Rightarrow> (Rejected error, [FetchCall url final])
      | Resolved response \<Rightarrow>
          if \<not> ok response
          then (Rejected (JError (''HTTP error! Status: '' @ number_to_string (status response))),
                [FetchCall url final])
          else (json response, [FetchCall url final, JsonCall]))"

text \<open>The default parameter \<open>options = {}\<close>: \<open>None\<close> is the omitted argument.\<close>

definition supplied :: "options option \<Rightarrow> options" where
  "supplied opts = (case opts of None \<Rightarrow> Map.empty | Some given \<Rightarrow> given)"

text \<open>\<open>fetcho\<close> itself: the \<open>catch\<close> block logs the error and rethrows it.\<close>

definition fetcho ::
  "(string \<Rightarrow> options \<Rightarrow> response settled) \<Rightarrow> string \<Rightarrow> options option
     \<Rightarrow> js settled \<times> effect list" where
  "fetcho fetch url opts =
     (let final = finalOptions (supplied opts)
      in case fetcho_try fetch url final of
           (Resolved v, trace) \<Rightarrow> (Resolved v, trace)
         | (Rejected error, trace) \<Rightarrow>
             (Rejected error, trace @ [ConsoleError [JStr ''Fetch error:'', error]]))"


fun sink_reports :: "effect list \<Rightarrow> js list list" where
  "sink_reports [] = []"
| "sink_reports (ConsoleError args # es) = args # sink_reports es"
| "sink_reports (e # es) = sink_reports es"

fun json_calls :: "effect list \<Rightarrow> nat" where
  "json_calls [] = 0"
| "json_calls (JsonCall # es) = Suc (json_calls es)"
| "json_calls (e # es) = json_calls es"

text \<open>
  Reading a decimal numeral back, to state that \<open>number_to_string\<close> writes the
  decimal digits of its argument.
\<close>

definition digit_value :: "char \<Rightarrow> nat" where
  "digit_value c = of_char c - of_char (CHR ''0'')"

definition decimal_value :: "string \<Rightarrow> nat" where
  "decimal_value s = foldl (\<lambda>acc c. 10 * acc + digit_value c) 0 s"

section \<open>useFetch\<close>

text \<open>
  The three \<open>useState\<close> cells, and the effect body \<open>fetchData\<close> as the setter calls
  it makes, in order: \<open>setLoading(true)\<close>; then \<open>setData(result)\<close> when \<open>fetcho\<close>
  resolved, or \<open>setError(err.message)\<close> when it rejected; then, in \<open>finally\<close>,
  \<open>setLoading(false)\<close>. Reading \<open>err.message\<close> throws for \<open>undefined\<close> and
  \<open>null\<close> (then \<open>setError\<close> is not reached, \<open>finally\<close> still runs) and gives
  \<open>undefined\<close> for a value without that property. Each trigger is taken to settle
  before the next one starts.
\<close>

record hook_state =
  data :: js
  error :: js
  loading :: bool

definition initial_state :: hook_state where
  "initial_state = \<lparr>data = JNull, error = JNull, loading = True\<rparr>"

datatype setter = SetData js | SetError js | SetLoading bool

fun apply_setter :: "hook_state \<Rightarrow> setter \<Rightarrow> hook_state" where
  "apply_setter s (SetData v) = s\<lparr>data := v\<rparr>"
| "apply_setter s (SetError v) = s\<lparr>error := v\<rparr>"
| "apply_setter s (SetLoading b) = s\<lparr>loading := b\<rparr>"

fun get_message :: "js \<Rightarrow> js option" where
  "get_message JUndefined = None"
| "get_message JNull = None"
| "get_message (JError m) = Some (JStr m)"
| "get_message (JObj ps) = Some (case map_of ps ''message'' of Some v \<Rightarrow> v | None \<Rightarrow> JUndefined)"
| "get_message v = Some JUndefined"

definition fetchData_setters :: "js settled \<Rightarrow> setter list" where
  "fetchData_setters outcome =
     [SetLoading True]
     @ (case outcome of
          Resolved result \<Rightarrow> [SetData result]
        | Rejected err \<Rightarrow> (case get_message err of Some m \<Rightarrow> [SetError m] | None \<Rightarrow> []))
     @ [SetLoading False]"

definition fetchData :: "hook_state \<Rightarrow> js settled \<Rightarrow> hook_state" where
  "fetchData s outcome = foldl apply_setter s (fetchData_setters outcome)"

text \<open>The values written to \<open>loading\<close> by a series of setter calls, in order.\<close>

fun loading_writes :: "setter list \<Rightarrow> bool list" where
  "loading_writes [] = []"
| "loading_writes (SetLoading b # rest) = b # loading_writes rest"
| "loading_writes (other # rest) = loading_writes rest"

text \<open>The effect of one trigger of the hook, with the call of \<open>fetcho\<close> it makes.\<close>

definition useFetch_effect ::
  "(string \<Rightarrow> options \<Rightarrow> response settled) \<Rightarrow> string \<Rightarrow> options \<Rightarrow> hook_state \<Rightarrow> hook_state" where
  "useFetch_effect fetch url opts s = fetchData s (fst (fetcho fetch url (Some opts)))"

text \<open>The state after a series of triggers, given how the fetch of each one settled.\<close>

fun triggers :: "hook_state \<Rightarrow> js settled list \<Rightarrow> hook_state" where
  "triggers s [] = s"
| "triggers s (outcome # rest) = triggers (fetchData s outcome) rest"


section \<open>Properties of retryFetch\<close>

lemma retry_loop_beyond:
  "\<not> int i < retries \<Longrightarrow> retry_loop fetchFn retries delay i lastError = (Rejected lastError, [])"
  by (simp add: retry_loop.simps)

lemma retry_loop_success:
  "int i < retries \<Longrightarrow> fetchFn i = Resolved v \<Longrightarrow>
   retry_loop fetchFn retries delay i lastError = (Resolved v, [Invoke])"
  by (simp add: retry_loop.simps)

lemma retry_loop_failure:
  "int i < retries \<Longrightarrow> fetchFn i = Rejected err \<Longrightarrow>
   retry_loop fetchFn retries delay i lastError =
     (fst (retry_loop fetchFn retries delay (Suc i) err),
      Invoke # (if int i < retries - 1 then [Sleep delay] else [])
        @ snd (retry_loop fetchFn retries delay (Suc i) err))"
  by (simp add: retry_loop.simps [of fetchFn retries delay i] Let_def)

lemma retry_loop_first_success:
  "\<forall>j. i \<le> j \<and> j < i + m \<longrightarrow> fetchFn j = Rejected (e j) \<Longrightarrow>
   fetchFn (i + m) = Resolved v \<Longrightarrow> int (i + m) < retries \<Longrightarrow>
   retry_loop fetchFn retries delay i lastError =
     (Resolved v, concat (replicate m [Invoke, Sleep delay]) @ [Invoke])"
proof (induction m arbitrary: i lastError)
  case 0
  then show ?case by (simp add: retry_loop_success)
next
  case (Suc m)
  have here: "fetchFn i = Rejected (e i)" using Suc.prems(1) by simp
  have more: "int i < retries - 1" and now: "int i < retries" using Suc.prems(3) by simp_all
  have rest: "retry_loop fetchFn retries delay (Suc i) (e i) =
      (Resolved v, concat (replicate m [Invoke, Sleep delay]) @ [Invoke])"
    using Suc.prems by (intro Suc.IH) simp_all
  show ?case
    by (simp add: retry_loop_failure [where fetchFn = fetchFn and i = i and err = "e i", OF now here] more rest)
qed

lemma retry_loop_all_fail:
  "\<forall>j. i \<le> j \<and> j \<le> i + m \<longrightarrow> fetchFn j = Rejected (e j) \<Longrightarrow>
   int (i + m) = retries - 1 \<Longrightarrow>
   retry_loop fetchFn retries delay i lastError =
     (Rejected (e (i + m)), concat (replicate m [Invoke, Sleep delay]) @ [Invoke])"
proof (induction m arbitrary: i lastError)
  case 0
  have here: "fetchFn i = Rejected (e i)" using "0.prems"(1) by simp
  have now: "int i < retries" and last: "\<not> int i < retries - 1" and stop: "\<not> int (Suc i) < retries"
    using "0.prems"(2) by simp_all
  show ?case
    by (simp add: retry_loop_failure [where fetchFn = fetchFn and i = i and err = "e i", OF now here] last retry_loop_beyond [OF stop])
next
  case (Suc m)
  have here: "fetchFn i = Rejected (e i)" using Suc.prems(1) by simp
  have more: "int i < retries - 1" and now: "int i < retries" using Suc.prems(2) by simp_all
  have rest: "retry_loop fetchFn retries delay (Suc i) (e i) =
      (Rejected (e (Suc i + m)), concat (replicate m [Invoke, Sleep delay]) @ [Invoke])"
    using Suc.prems by (intro Suc.IH) simp_all
  show ?case
    by (simp add: retry_loop_failure [where fetchFn = fetchFn and i = i and err = "e i", OF now here] more rest)
qed

lemma invocations_rounds:
  "invocations (concat (replicate m [Invoke, Sleep d]) @ [Invoke]) = Suc m"
  by (induction m) simp_all

lemma sleeps_rounds:
  "sleeps (concat (replicate m [Invoke, Sleep d]) @ [Invoke]) = replicate m d"
  by (induction m) simp_all

text \<open>
  Claim C2. For every \<open>n \<ge> 1\<close> and every producer whose first \<open>n\<close> invocations
  all fail, \<open>retryFetch(producer, n, d)\<close> invokes the producer exactly \<open>n\<close> times and
  rejects with the reason of the \<open>n\<close>th invocation; the earlier reasons are dropped.
  There are \<open>n - 1\<close> waits, none after the last attempt.
\<close>

theorem retryFetch_exhausted:
  assumes "1 \<le> n" and "\<forall>j < nat n. fetchFn j = Rejected (e j)"
  shows "retryFetch fetchFn (Some n) (Some d) =
           (Rejected (e (nat n - 1)), concat (replicate (nat n - 1) [Invoke, Sleep d]) @ [Invoke])
         \<and> invocations (snd (retryFetch fetchFn (Some n) (Some d))) = nat n
         \<and> sleeps (snd (retryFetch fetchFn (Some n) (Some d))) = replicate (nat n - 1) d"
proof -
  have fails: "\<forall>j. 0 \<le> j \<and> j \<le> 0 + (nat n - 1) \<longrightarrow> fetchFn j = Rejected (e j)"
    using assms by auto
  have bound: "int (0 + (nat n - 1)) = n - 1" using assms(1) by simp
  have run: "retryFetch fetchFn (Some n) (Some d) =
      (Rejected (e (nat n - 1)), concat (replicate (nat n - 1) [Invoke, Sleep d]) @ [Invoke])"
    unfolding retryFetch_def using retry_loop_all_fail [OF fails bound] by simp
  have "Suc (nat n - 1) = nat n" using assms(1) by simp
  then show ?thesis by (simp add: run invocations_rounds sleeps_rounds)
qed

theorem retryFetch_exhausted_witness:
  "(1::int) \<le> 3 \<and>
   retryFetch (\<lambda>j. Rejected (JNum (int j))) (Some 3) (Some 50) =
     (Rejected (JNum 2), [Invoke, Sleep 50, Invoke, Sleep 50, Invoke])
   \<and> invocations (snd (retryFetch (\<lambda>j. Rejected (JNum (int j))) (Some 3) (Some 50))) = 3
   \<and> sleeps (snd (retryFetch (\<lambda>j. Rejected (JNum (int j))) (Some 3) (Some 50))) = [50, 50]"
  using retryFetch_exhausted [of 3 "\<lambda>j. Rejected (JNum (int j))" "\<lambda>j. JNum (int j)" 50]
  by (simp add: numeral_2_eq_2 numeral_3_eq_3)

text \<open>
  Claim C3. For every \<open>n \<ge> 1\<close> and \<open>1 \<le> k \<le> n\<close>, a producer that fails on
  attempts \<open>1..k-1\<close> and succeeds on attempt \<open>k\<close> is invoked exactly \<open>k\<close> times;
  the call resolves with the value of attempt \<open>k\<close> after exactly \<open>k - 1\<close> waits, each
  with duration argument \<open>d\<close>, and no wait follows the successful attempt.
\<close>

theorem retryFetch_succeeds_at:
  assumes "1 \<le> n" and "1 \<le> k" and "int k \<le> n"
    and "\<forall>j < k - 1. fetchFn j = Rejected (e j)" and "fetchFn (k - 1) = Resolved v"
  shows "retryFetch fetchFn (Some n) (Some d) =
           (Resolved v, concat (replicate (k - 1) [Invoke, Sleep d]) @ [Invoke])
         \<and> invocations (snd (retryFetch fetchFn (Some n) (Some d))) = k
         \<and> sleeps (snd (retryFetch fetchFn (Some n) (Some d))) = replicate (k - 1) d"
proof -
  have fails: "\<forall>j. 0 \<le> j \<and> j < 0 + (k - 1) \<longrightarrow> fetchFn j = Rejected (e j)"
    using assms(4) by simp
  have ok: "fetchFn (0 + (k - 1)) = Resolved v" using assms(5) by simp
  have bound: "int (0 + (k - 1)) < n" using assms(2,3) by simp
  have run: "retryFetch fetchFn (Some n) (Some d) =
      (Resolved v, concat (replicate (k - 1) [Invoke, Sleep d]) @ [Invoke])"
    unfolding retryFetch_def using retry_loop_first_success [OF fails ok bound] by simp
  have "Suc (k - 1) = k" using assms(2) by simp
  then show ?thesis by (simp add: run invocations_rounds sleeps_rounds)
qed

theorem retryFetch_succeeds_at_witness:
  "retryFetch (\<lambda>j. if j < 2 then Rejected (JError ''down'') else Resolved (JStr ''up'')) (Some 5) (Some 1000) =
     (Resolved (JStr ''up''), [Invoke, Sleep 1000, Invoke, Sleep 1000, Invoke])
   \<and> invocations (snd (retryFetch (\<lambda>j. if j < 2 then Rejected (JError ''down'') else Resolved (JStr ''up'')) (Some 5) (Some 1000))) = 3
   \<and> sleeps (snd (retryFetch (\<lambda>j. if j < 2 then Rejected (JError ''down'') else Resolved (JStr ''up'')) (Some 5) (Some 1000))) = [1000, 1000]"
  using retryFetch_succeeds_at [of 5 3 "\<lambda>j. if j < 2 then Rejected (JError ''down'') else Resolved (JStr ''up'')" "\<lambda>j. JError ''down''" "JStr ''up''" 1000]
  by (simp add: numeral_2_eq_2)

text \<open>
  Claim C10. For every \<open>retries \<le> 0\<close> the loop body never runs: the producer is
  not invoked, and the call rejects with the uninitialised \<open>lastError\<close>, that is with
  \<open>undefined\<close>.
\<close>

theorem retryFetch_no_attempts:
  assumes "retries \<le> 0"
  shows "retryFetch fetchFn (Some retries) delay = (Rejected JUndefined, [])
         \<and> invocations (snd (retryFetch fetchFn (Some retries) delay)) = 0"
  using assms by (simp add: retryFetch_def retry_loop_beyond)

theorem retryFetch_no_attempts_witness:
  "(-2::int) \<le> 0 \<and> retryFetch (\<lambda>j. Resolved (JStr ''up'')) (Some (-2)) None = (Rejected JUndefined, [])
   \<and> invocations (snd (retryFetch (\<lambda>j. Resolved (JStr ''up'')) (Some (-2)) None)) = 0"
  using retryFetch_no_attempts [of "-2" "\<lambda>j. Resolved (JStr ''up'')" None] by simp

section \<open>Properties of fetcho\<close>

lemma digit_value_digit_char: "d < 10 \<Longrightarrow> digit_value (digit_char d) = d"
proof -
  assume "d < 10"
  then have "d \<in> {0, 1, 2, 3, 4, 5, 6, 7, 8, 9}" by auto
  then show ?thesis
    by (auto simp: digit_value_def digit_char_def)
qed

lemma decimal_value_snoc:
  "decimal_value (s @ [c]) = 10 * decimal_value s + digit_value c"
  by (simp add: decimal_value_def)

lemma decimal_value_number_to_string: "decimal_value (number_to_string n) = n"
proof (induction n rule: number_to_string.induct)
  case (1 n)
  show ?case
  proof (cases "n < 10")
    case True
    then show ?thesis
      by (simp add: number_to_string.simps [of n] decimal_value_def digit_value_digit_char)
  next
    case False
    then have "decimal_value (number_to_string (n div 10)) = n div 10"
      using "1.IH" by simp
    then show ?thesis
      using False
      by (simp add: number_to_string.simps [of n] decimal_value_snoc digit_value_digit_char)
  qed
qed

lemma number_to_string_digits: "set (number_to_string n) \<subseteq> set ''0123456789''"
proof (induction n rule: number_to_string.induct)
  case (1 n)
  have digit: "digit_char d \<in> set ''0123456789''" if "d < 10" for d
    using that unfolding digit_char_def by (intro nth_mem) simp
  show ?case
  proof (cases "n < 10")
    case True
    then show ?thesis using digit [of n] by (simp add: number_to_string.simps [of n])
  next
    case False
    then show ?thesis
      using "1.IH" digit [of "n mod 10"] by (simp add: number_to_string.simps [of n])
  qed
qed





lemma fetcho_outcome:
  "fst (fetcho fetch url opts) = fst (fetcho_try fetch url (finalOptions (supplied opts)))"
  by (simp add: fetcho_def Let_def split: prod.splits settled.splits)

lemma fetcho_trace:
  "snd (fetcho fetch url opts) =
     snd (fetcho_try fetch url (finalOptions (supplied opts)))
     @ (case fst (fetcho fetch url opts) of
          Resolved v \<Rightarrow> []
        | Rejected e \<Rightarrow> [ConsoleError [JStr ''Fetch error:'', e]])"
  by (simp add: fetcho_def Let_def split: prod.splits settled.splits)

lemma sink_reports_append: "sink_reports (xs @ ys) = sink_reports xs @ sink_reports ys"
  by (induction xs rule: sink_reports.induct) simp_all

lemma json_calls_append: "json_calls (xs @ ys) = json_calls xs + json_calls ys"
  by (induction xs rule: json_calls.induct) simp_all

lemma fetcho_try_silent: "sink_reports (snd (fetcho_try fetch url final)) = []"
  by (simp add: fetcho_try_def split: settled.splits)

text \<open>
  Claim C5. When the response's \<open>ok\<close> flag is false, \<open>fetcho\<close> rejects with an
  \<open>Error\<close> whose message is \<open>HTTP error! Status: \<close> followed by the status code in
  decimal (\<open>HTTP error! Status: 404\<close> for a 404), and \<open>response.json()\<close> is never
  called.
\<close>

theorem fetcho_http_error:
  assumes "fetch url (finalOptions (supplied opts)) = Resolved r" and "\<not> ok r"
  shows "fst (fetcho fetch url opts) =
           Rejected (JError (''HTTP error! Status: '' @ number_to_string (status r)))
       \<and> json_calls (snd (fetcho fetch url opts)) = 0
       \<and> decimal_value (number_to_string (status r)) = status r"
proof -
  have body: "fetcho_try fetch url (finalOptions (supplied opts)) =
      (Rejected (JError (''HTTP error! Status: '' @ number_to_string (status r))),
       [FetchCall url (finalOptions (supplied opts))])"
    using assms by (simp add: fetcho_try_def)
  have "fst (fetcho fetch url opts) =
      Rejected (JError (''HTTP error! Status: '' @ number_to_string (status r)))"
    by (simp add: fetcho_outcome body)
  moreover from this have "json_calls (snd (fetcho fetch url opts)) = 0"
    by (simp add: fetcho_trace [of fetch url opts] body json_calls_append)
  ultimately show ?thesis
    by (simp add: decimal_value_number_to_string)
qed

theorem fetcho_http_error_witness:
  "fst (fetcho (\<lambda>u final. Resolved \<lparr>ok = False, status = 404, json = Resolved (JStr ''body'')\<rparr>)
          ''/missing'' None)
     = Rejected (JError ''HTTP error! Status: 404'')
   \<and> json_calls (snd (fetcho (\<lambda>u final. Resolved \<lparr>ok = False, status = 404, json = Resolved (JStr ''body'')\<rparr>)
          ''/missing'' None)) = 0"
  using fetcho_http_error [of "\<lambda>u final. Resolved \<lparr>ok = False, status = 404, json = Resolved (JStr ''body'')\<rparr>"
      "''/missing''" None "\<lparr>ok = False, status = 404, json = Resolved (JStr ''body'')\<rparr>"]
  by (simp add: number_to_string.simps digit_char_def)

text \<open>
  Claim C9. Whenever \<open>fetcho\<close> fails, the error given to \<open>console.error\<close> is the
  error it rejects with, the report is the last thing it does, and it happens once; a
  call that resolves reports nothing. A transport error and a JSON parse failure are
  rejected unchanged, a non-success status is rejected with the status error, and
  \<open>fetcho\<close> resolves exactly when the transport answered, the status was a success
  and the body parsed: no failure is turned into a success.
\<close>

theorem fetcho_reports_then_rethrows:
  "sink_reports (snd (fetcho fetch url opts)) =
     (case fst (fetcho fetch url opts) of
        Rejected e \<Rightarrow> [[JStr ''Fetch error:'', e]]
      | Resolved v \<Rightarrow> [])
   \<and> (\<forall>e. fst (fetcho fetch url opts) = Rejected e \<longrightarrow>
          last (snd (fetcho fetch url opts)) = ConsoleError [JStr ''Fetch error:'', e])
   \<and> (\<forall>e. fetch url (finalOptions (supplied opts)) = Rejected e \<longrightarrow>
          fst (fetcho fetch url opts) = Rejected e)
   \<and> (\<forall>r. fetch url (finalOptions (supplied opts)) = Resolved r \<and> \<not> ok r \<longrightarrow>
          fst (fetcho fetch url opts) =
            Rejected (JError (''HTTP error! Status: '' @ number_to_string (status r))))
   \<and> (\<forall>r e. fetch url (finalOptions (supplied opts)) = Resolved r \<and> ok r \<and> json r = Rejected e \<longrightarrow>
          fst (fetcho fetch url opts) = Rejected e)
   \<and> (\<forall>r v. fetch url (finalOptions (supplied opts)) = Resolved r \<and> ok r \<and> json r = Resolved v \<longrightarrow>
          fst (fetcho fetch url opts) = Resolved v)
   \<and> (\<forall>v. fst (fetcho fetch url opts) = Resolved v \<longrightarrow>
          (\<exists>r. fetch url (finalOptions (supplied opts)) = Resolved r \<and> ok r \<and> json r = Resolved v))"
proof -
  have reports: "sink_reports (snd (fetcho fetch url opts)) =
     (case fst (fetcho fetch url opts) of
        Rejected e \<Rightarrow> [[JStr ''Fetch error:'', e]]
      | Resolved v \<Rightarrow> [])"
    by (subst fetcho_trace) (simp add: sink_reports_append fetcho_try_silent split: settled.splits)
  have final: "last (snd (fetcho fetch url opts)) = ConsoleError [JStr ''Fetch error:'', e]"
    if "fst (fetcho fetch url opts) = Rejected e" for e
    by (subst fetcho_trace) (simp add: that)
  have transport: "fst (fetcho fetch url opts) = Rejected e"
    if "fetch url (finalOptions (supplied opts)) = Rejected e" for e
    using that by (simp add: fetcho_outcome fetcho_try_def)
  have status: "fst (fetcho fetch url opts) =
      Rejected (JError (''HTTP error! Status: '' @ number_to_string (status r)))"
    if "fetch url (finalOptions (supplied opts)) = Resolved r" and "\<not> ok r" for r
    using that by (simp add: fetcho_outcome fetcho_try_def)
  have parse: "fst (fetcho fetch url opts) = Rejected e"
    if "fetch url (finalOptions (supplied opts)) = Resolved r" and "ok r" and "json r = Rejected e"
    for r e
    using that by (simp add: fetcho_outcome fetcho_try_def)
  have parsed: "fst (fetcho fetch url opts) = Resolved v"
    if "fetch url (finalOptions (supplied opts)) = Resolved r" and "ok r" and "json r = Resolved v"
    for r v
    using that by (simp add: fetcho_outcome fetcho_try_def)
  have success: "\<exists>r. fetch url (finalOptions (supplied opts)) = Resolved r \<and> ok r \<and> json r = Resolved v"
    if "fst (fetcho fetch url opts) = Resolved v" for v
    using that by (auto simp: fetcho_outcome fetcho_try_def split: settled.splits if_splits)
  show ?thesis
    using reports final transport status parse parsed success by blast
qed

theorem fetcho_reports_then_rethrows_witness:
  "fst (fetcho (\<lambda>u final. Rejected (JError ''Failed to fetch'')) ''/x'' None)
     = Rejected (JError ''Failed to fetch'')
   \<and> sink_reports (snd (fetcho (\<lambda>u final. Rejected (JError ''Failed to fetch'')) ''/x'' None))
     = [[JStr ''Fetch error:'', JError ''Failed to fetch'']]
   \<and> last (snd (fetcho (\<lambda>u final. Rejected (JError ''Failed to fetch'')) ''/x'' None))
     = ConsoleError [JStr ''Fetch error:'', JError ''Failed to fetch'']
   \<and> fst (fetcho (\<lambda>u final. Resolved \<lparr>ok = True, status = 200, json = Rejected (JError ''Unexpected token'')\<rparr>) ''/x'' None)
     = Rejected (JError ''Unexpected token'')
   \<and> sink_reports (snd (fetcho (\<lambda>u final. Resolved \<lparr>ok = True, status = 200, json = Rejected (JError ''Unexpected token'')\<rparr>) ''/x'' None))
     = [[JStr ''Fetch error:'', JError ''Unexpected token'']]
   \<and> fst (fetcho (\<lambda>u final. Resolved \<lparr>ok = True, status = 200, json = Resolved (JNum 7)\<rparr>) ''/x'' None)
     = Resolved (JNum 7)
   \<and> sink_reports (snd (fetcho (\<lambda>u final. Resolved \<lparr>ok = True, status = 200, json = Resolved (JNum 7)\<rparr>) ''/x'' None))
     = []"
  using fetcho_reports_then_rethrows [of "\<lambda>u final. Rejected (JError ''Failed to fetch'')" "''/x''" None]
    fetcho_reports_then_rethrows [of "\<lambda>u final. Resolved \<lparr>ok = True, status = 200, json = Rejected (JError ''Unexpected token'')\<rparr>" "''/x''" None]
    fetcho_reports_then_rethrows [of "\<lambda>u final. Resolved \<lparr>ok = True, status = 200, json = Resolved (JNum 7)\<rparr>" "''/x''" None]
  by simp

section \<open>Properties of useCache\<close>

lemma get_prop_own: "c key = Some v \<Longrightarrow> get_prop c key = v"
  by (simp add: get_prop_def)

lemma get_prop_fresh:
  "c key = None \<Longrightarrow> key \<notin> set object_prototype_keys \<Longrightarrow> get_prop c key = JUndefined"
  by (simp add: get_prop_def)

lemma get_prop_inherited:
  "c key = None \<Longrightarrow> key \<in> set object_prototype_keys \<Longrightarrow> get_prop c key = JBuiltin key"
  by (simp add: get_prop_def)

lemma useCache_hit:
  "c key = Some v \<Longrightarrow> truthy v \<Longrightarrow>
   useCache c key fetchFn = \<lparr>store = c, settlement = Resolved v, calls = 0\<rparr>"
  by (simp add: useCache_def get_prop_own)

lemma useCache_miss_resolved:
  "c key = None \<Longrightarrow> key \<notin> set object_prototype_keys \<Longrightarrow>
   useCache c key (Resolved v) = \<lparr>store = c(key \<mapsto> v), settlement = Resolved v, calls = 1\<rparr>"
  by (simp add: useCache_def get_prop_fresh)

lemma useCache_miss_rejected:
  "c key = None \<Longrightarrow> key \<notin> set object_prototype_keys \<Longrightarrow>
   useCache c key (Rejected e) = \<lparr>store = c, settlement = Rejected e, calls = 1\<rparr>"
  by (simp add: useCache_def get_prop_fresh)

lemma useCache_miss_not_inherited:
  "calls (useCache c key fetchFn) \<noteq> 0 \<Longrightarrow> c key = None \<Longrightarrow> key \<notin> set object_prototype_keys"
  by (auto simp: useCache_def get_prop_def split: if_splits)

lemma useCache_own_names:
  "dom c \<inter> set object_prototype_keys = {} \<Longrightarrow>
   dom (store (useCache c key fetchFn)) \<inter> set object_prototype_keys = {}"
  by (auto simp: useCache_def get_prop_def split: if_splits settled.splits option.splits)

lemma useCache_truthy_then_hit:
  assumes "c key = None" and "key \<notin> set object_prototype_keys" and "truthy v"
  shows "useCache (store (useCache c key (Resolved v))) key other =
           \<lparr>store = c(key \<mapsto> v), settlement = Resolved v, calls = 0\<rparr>"
  using assms by (simp add: useCache_miss_resolved useCache_hit)

lemma useCache_failure_then_retry:
  assumes "c key = None" and "key \<notin> set object_prototype_keys"
  shows "useCache c key (Rejected e) = \<lparr>store = c, settlement = Rejected e, calls = 1\<rparr>
       \<and> calls (useCache (store (useCache c key (Rejected e))) key other) = 1"
  using assms by (simp add: useCache_def get_prop_fresh split: settled.splits)

lemma useCache_keeps_truthy:
  "c k = Some v \<Longrightarrow> truthy v \<Longrightarrow> store (useCache c key fetchFn) k = Some v"
  by (auto simp: useCache_def get_prop_def split: settled.splits)

lemma useCache_keeps_keys: "dom c \<subseteq> dom (store (useCache c key fetchFn))"
  by (auto simp: useCache_def split: settled.splits)

lemma useCache_seq_keeps_truthy:
  "c k = Some v \<Longrightarrow> truthy v \<Longrightarrow> useCache_seq c reqs k = Some v"
proof (induction reqs arbitrary: c)
  case Nil
  then show ?case by simp
next
  case (Cons req reqs)
  obtain key fetchFn where req: "req = (key, fetchFn)" by (cases req)
  have "store (useCache c key fetchFn) k = Some v"
    using Cons.prems by (rule useCache_keeps_truthy)
  then show ?case
    using Cons.IH Cons.prems(2) by (simp add: req)
qed

lemma useCache_seq_keeps_keys: "dom c \<subseteq> dom (useCache_seq c reqs)"
proof (induction reqs arbitrary: c)
  case Nil
  then show ?case by simp
next
  case (Cons req reqs)
  obtain key fetchFn where req: "req = (key, fetchFn)" by (cases req)
  have "dom c \<subseteq> dom (store (useCache c key fetchFn))" by (rule useCache_keeps_keys)
  also have "\<dots> \<subseteq> dom (useCache_seq (store (useCache c key fetchFn)) reqs)" by (rule Cons.IH)
  finally show ?case by (simp add: req)
qed

text \<open>
  Claim C1. For a key without an entry, \<open>useCache(k, p)\<close> invokes \<open>p\<close> once and
  stores the value it resolves with; a second call \<open>useCache(k, q)\<close> is to resolve with
  the stored value without invoking \<open>q\<close>. The hit test is \<open>if (cache[key])\<close>: when
  the stored value is falsy, here the number \<open>0\<close>, the second call invokes \<open>q\<close>, and
  rejects when \<open>q\<close> fails. For a truthy value and a key that is not inherited the
  claim holds (\<open>useCache_truthy_then_hit\<close>).
\<close>

theorem useCache_falsy_value_refetched:
  "useCache Map.empty ''k'' (Resolved (JNum 0)) =
     \<lparr>store = [''k'' \<mapsto> JNum 0], settlement = Resolved (JNum 0), calls = 1\<rparr>
   \<and> useCache [''k'' \<mapsto> JNum 0] ''k'' (Rejected (JError ''boom'')) =
     \<lparr>store = [''k'' \<mapsto> JNum 0], settlement = Rejected (JError ''boom''), calls = 1\<rparr>"
  by (simp add: useCache_def get_prop_def object_prototype_keys_def)

text \<open>
  Claim C6. For a key without an entry and a producer that fails, \<open>useCache\<close> is to
  propagate the failure, store nothing and let the next call invoke its producer
  again. For a key that names a member of \<open>Object.prototype\<close>, here
  \<open>constructor\<close>, the hit test finds the inherited member: the producer is never
  invoked and the call resolves with that member. For every other key the claim holds
  (\<open>useCache_failure_then_retry\<close>).
\<close>

theorem useCache_inherited_key_never_fetched:
  "useCache Map.empty ''constructor'' (Rejected (JError ''boom'')) =
     \<lparr>store = Map.empty, settlement = Resolved (JBuiltin ''constructor''), calls = 0\<rparr>"
  by (simp add: useCache_def get_prop_def object_prototype_keys_def)

text \<open>
  Claim C7. Across a sequence of \<open>useCache\<close> calls an entry, once written, is never to
  be overwritten or removed. An entry holding a falsy value is overwritten by the next
  call for its key: here \<open>0\<close> is replaced by \<open>7\<close>. Entries holding a truthy value
  stay as they are, and no key is ever removed (\<open>useCache_seq_keeps_truthy\<close>,
  \<open>useCache_seq_keeps_keys\<close>).
\<close>

theorem useCache_seq_overwrites_falsy_entry:
  "useCache_seq Map.empty [(''k'', Resolved (JNum 0))] ''k'' = Some (JNum 0)
   \<and> useCache_seq Map.empty [(''k'', Resolved (JNum 0)), (''k'', Resolved (JNum 7))] ''k'' = Some (JNum 7)"
  by (simp add: useCache_def get_prop_def object_prototype_keys_def)

section \<open>Properties of useFetch\<close>

lemma fetchData_resolved: "fetchData s (Resolved v) = s\<lparr>data := v, loading := False\<rparr>"
  by (simp add: fetchData_def fetchData_setters_def)

lemma fetchData_rejected_error:
  "fetchData s (Rejected (JError m)) = s\<lparr>error := JStr m, loading := False\<rparr>"
  by (simp add: fetchData_def fetchData_setters_def)

lemma fetchData_loading: "loading (fetchData s outcome) = False"
  by (simp add: fetchData_def fetchData_setters_def split: settled.splits option.splits)

lemma fetchData_loading_writes: "loading_writes (fetchData_setters outcome) = [True, False]"
  by (simp add: fetchData_setters_def split: settled.splits option.splits)

lemma fetchData_keeps_error: "error (fetchData s (Resolved v)) = error s"
  by (simp add: fetchData_resolved)

lemma fetchData_keeps_data: "data (fetchData s (Rejected e)) = data s"
  by (simp add: fetchData_def fetchData_setters_def split: option.splits)

lemma triggers_loading: "outcomes \<noteq> [] \<Longrightarrow> loading (triggers s outcomes) = False"
proof (induction outcomes arbitrary: s)
  case Nil
  then show ?case by simp
next
  case (Cons outcome rest)
  show ?case
  proof (cases rest)
    case Nil
    then show ?thesis by (simp add: fetchData_loading)
  next
    case (Cons next_outcome more)
    then show ?thesis using Cons.IH [of "fetchData s outcome"] by simp
  qed
qed

lemma triggers_error_unset:
  "\<forall>outcome \<in> set outcomes. \<exists>v. outcome = Resolved v \<Longrightarrow>
   error (triggers s outcomes) = error s"
proof (induction outcomes arbitrary: s)
  case Nil
  then show ?case by simp
next
  case (Cons outcome rest)
  then obtain v where "outcome = Resolved v" by auto
  then show ?case using Cons by (simp add: fetchData_keeps_error)
qed

lemma triggers_data_unset:
  "\<forall>outcome \<in> set outcomes. \<exists>e. outcome = Rejected e \<Longrightarrow>
   data (triggers s outcomes) = data s"
proof (induction outcomes arbitrary: s)
  case Nil
  then show ?case by simp
next
  case (Cons outcome rest)
  then obtain e where "outcome = Rejected e" by auto
  then show ?case using Cons by (simp add: fetchData_keeps_data)
qed

lemma useFetch_effect_http_error:
  assumes "fetch url (finalOptions opts) = Resolved r" and "\<not> ok r"
  shows "useFetch_effect fetch url opts s =
           s\<lparr>error := JStr (''HTTP error! Status: '' @ number_to_string (status r)), loading := False\<rparr>"
  using assms
  by (simp add: useFetch_effect_def fetcho_def fetcho_try_def supplied_def fetchData_rejected_error)

lemma useFetch_effect_success:
  assumes "fetch url (finalOptions opts) = Resolved r" and "ok r" and "json r = Resolved v"
  shows "useFetch_effect fetch url opts s = s\<lparr>data := v, loading := False\<rparr>"
  using assms
  by (simp add: useFetch_effect_def fetcho_def fetcho_try_def supplied_def fetchData_resolved)

text \<open>
  What the effect body does to the state. A fetch that resolves writes the result to
  \<open>data\<close>, one that rejects with an \<open>Error\<close> writes its message to \<open>error\<close>, and
  both end with \<open>loading\<close> false; neither touches the other field. So while no
  earlier trigger has failed, a resolving fetch ends in
  \<open>{ data: result, error: null, loading: false }\<close>, as from the initial state with a
  producer resolving \<open>{ id: 1 }\<close>. The effect writes \<open>loading\<close> twice, \<open>true\<close> then
  \<open>false\<close>.
\<close>

lemma fetchData_transitions:
  "fetchData s (Resolved v) = s\<lparr>data := v, loading := False\<rparr>
   \<and> fetchData s (Rejected (JError m)) = s\<lparr>error := JStr m, loading := False\<rparr>
   \<and> ((\<forall>outcome \<in> set earlier. \<exists>w. outcome = Resolved w) \<longrightarrow>
        triggers initial_state (earlier @ [Resolved v]) = \<lparr>data = v, error = JNull, loading = False\<rparr>)
   \<and> ((\<forall>outcome \<in> set earlier. \<exists>e. outcome = Rejected e) \<longrightarrow>
        triggers initial_state (earlier @ [Rejected (JError m)]) = \<lparr>data = JNull, error = JStr m, loading = False\<rparr>)
   \<and> fetchData initial_state (Resolved (JObj [(''id'', JNum 1)])) =
        \<lparr>data = JObj [(''id'', JNum 1)], error = JNull, loading = False\<rparr>
   \<and> loading_writes (fetchData_setters outcome) = [True, False]
   \<and> (outcomes \<noteq> [] \<longrightarrow> loading (triggers s outcomes) = False)"
proof -
  have split: "triggers t (xs @ [x]) = fetchData (triggers t xs) x" for t xs x
    by (induction xs arbitrary: t) simp_all
  have succeeded: "triggers initial_state (earlier @ [Resolved v]) = \<lparr>data = v, error = JNull, loading = False\<rparr>"
    if "\<forall>outcome \<in> set earlier. \<exists>w. outcome = Resolved w"
  proof -
    have "error (triggers initial_state earlier) = JNull"
      using triggers_error_unset [OF that, of initial_state] by (simp add: initial_state_def)
    then show ?thesis
      by (cases "triggers initial_state earlier") (simp add: split fetchData_resolved)
  qed
  have failed: "triggers initial_state (earlier @ [Rejected (JError m)]) = \<lparr>data = JNull, error = JStr m, loading = False\<rparr>"
    if "\<forall>outcome \<in> set earlier. \<exists>e. outcome = Rejected e"
  proof -
    have "data (triggers initial_state earlier) = JNull"
      using triggers_data_unset [OF that, of initial_state] by (simp add: initial_state_def)
    then show ?thesis
      by (cases "triggers initial_state earlier") (simp add: split fetchData_rejected_error)
  qed
  have first: "fetchData initial_state (Resolved (JObj [(''id'', JNum 1)])) =
        \<lparr>data = JObj [(''id'', JNum 1)], error = JNull, loading = False\<rparr>"
    by (simp add: fetchData_resolved initial_state_def)
  show ?thesis
    using succeeded failed first
    by (simp add: fetchData_resolved fetchData_rejected_error fetchData_loading_writes triggers_loading)
qed

lemma fetchData_transitions_example:
  "triggers initial_state [Resolved (JNum 5), Resolved (JObj [(''id'', JNum 1)])]
     = \<lparr>data = JObj [(''id'', JNum 1)], error = JNull, loading = False\<rparr>
   \<and> triggers initial_state [Rejected JUndefined, Rejected (JError ''Failed to fetch'')]
     = \<lparr>data = JNull, error = JStr ''Failed to fetch'', loading = False\<rparr>
   \<and> loading (triggers initial_state [Rejected (JError ''Failed to fetch''), Resolved (JNum 5)]) = False"
proof -
  have resolved: "\<forall>outcome \<in> set [Resolved (JNum 5)]. \<exists>w. outcome = Resolved w"
    and rejected: "\<forall>outcome \<in> set [Rejected JUndefined]. \<exists>e. outcome = Rejected e"
    and nonempty: "[Rejected (JError ''Failed to fetch''), Resolved (JNum 5)] \<noteq> []"
    by simp_all
  have "triggers initial_state ([Resolved (JNum 5)] @ [Resolved (JObj [(''id'', JNum 1)])])
      = \<lparr>data = JObj [(''id'', JNum 1)], error = JNull, loading = False\<rparr>"
    using resolved
      fetchData_transitions [where earlier = "[Resolved (JNum 5)]" and v = "JObj [(''id'', JNum 1)]"]
    by blast
  moreover have "triggers initial_state ([Rejected JUndefined] @ [Rejected (JError ''Failed to fetch'')])
      = \<lparr>data = JNull, error = JStr ''Failed to fetch'', loading = False\<rparr>"
    using rejected
      fetchData_transitions [where earlier = "[Rejected JUndefined]" and m = "''Failed to fetch''"]
    by blast
  moreover have "loading (triggers initial_state [Rejected (JError ''Failed to fetch''), Resolved (JNum 5)]) = False"
    using nonempty
      fetchData_transitions [where s = initial_state
        and outcomes = "[Rejected (JError ''Failed to fetch''), Resolved (JNum 5)]"]
    by blast
  ultimately show ?thesis by simp
qed

text \<open>
  Claim C8. From any reachable state, a triggered fetch that resolves is to end with
  \<open>data\<close> set to the result, \<open>loading\<close> false and \<open>error\<close> unset, and one that
  fails with \<open>error\<close> set, \<open>loading\<close> false and \<open>data\<close> unset. The effect body
  resets \<open>loading\<close> at every trigger but never \<open>error\<close> or \<open>data\<close>: after a fetch
  that failed with a 404, the next fetch resolves with \<open>{ id: 1 }\<close> and the state
  still carries the 404 message in \<open>error\<close>; in the other order, the failed fetch
  leaves the earlier \<open>data\<close> in place.
\<close>

theorem fetchData_keeps_stale_fields:
  "triggers initial_state [Rejected (JError ''HTTP error! Status: 404''), Resolved (JObj [(''id'', JNum 1)])]
     = \<lparr>data = JObj [(''id'', JNum 1)], error = JStr ''HTTP error! Status: 404'', loading = False\<rparr>
   \<and> error (triggers initial_state
        [Rejected (JError ''HTTP error! Status: 404''), Resolved (JObj [(''id'', JNum 1)])]) \<noteq> JNull
   \<and> data (triggers initial_state
        [Resolved (JObj [(''id'', JNum 1)]), Rejected (JError ''HTTP error! Status: 404'')]) \<noteq> JNull
   \<and> triggers initial_state [Resolved (JObj [(''id'', JNum 1)]), Rejected (JError ''HTTP error! Status: 404'')]
     = \<lparr>data = JObj [(''id'', JNum 1)], error = JStr ''HTTP error! Status: 404'', loading = False\<rparr>"
  by (simp add: fetchData_def fetchData_setters_def initial_state_def)

end
